theory Spec2Isabelle
  imports Main
begin

section \<open>Native tensors, Python values and errors\<close>

text \<open>
  A native tensor is the handle of one backend library. The wrapper reads its
  \<^verbatim>\<open>.shape\<close> and hands it to primitives of the backends; \<open>lib\<close> names the
  library whose tensor it is (a \<^verbatim>\<open>numpy.ndarray\<close> is the tensor of the library
  \<open>''numpy''\<close>), \<open>requires_grad\<close> says that it is a tracked variable.
  Element values are integers here (floating point is not modelled).
\<close>

record native =
  lib :: string
  dims :: "nat list"
  elems :: "int list"
  dtype_name :: string
  requires_grad :: bool

datatype error =
    IvyException
  | AttributeError
  | IndexError
  | TypeError
  | BackendError

text \<open>
  The attributes of \<^verbatim>\<open>ivy.Array\<close> that \<^verbatim>\<open>_init\<close> and the setters of
  \<^verbatim>\<open>array.py\<close> bind. A leading underscore of the source is written \<open>u_\<close>:
  \<open>u_data\<close> is \<^verbatim>\<open>self._data\<close>, \<open>backend\<close> is \<^verbatim>\<open>self.backend\<close> and
  \<open>u_backend\<close> is \<^verbatim>\<open>self._backend\<close>, a different attribute. A cache that holds
  \<^verbatim>\<open>None\<close> is \<open>None\<close>. \<open>u_backend\<close> is \<open>None\<close> while the attribute has
  never been assigned: \<^verbatim>\<open>_init\<close> does not bind it, only the setter of
  \<^verbatim>\<open>dynamic_backend\<close> does. A backend module is named by its backend.
\<close>

record array =
  u_data :: native
  u_size :: "nat option"
  u_strides :: "nat list option"
  u_itemsize :: "nat option"
  u_dtype :: "string option"
  u_device :: "string option"
  u_dev_str :: "string option"
  u_pre_repr :: "string option"
  u_post_repr :: "string option"
  backend :: string
  u_dynamic_backend :: bool
  weak_type :: bool
  u_backend :: "string option"

datatype pyobj =
    IvyArray array
  | Native native
  | Scalar int
  | PyNone

section \<open>The backend registry\<close>

text \<open>
  The process-wide state of \<^verbatim>\<open>ivy\<close>: the stack of explicitly set backends (the
  current one last) and the global flag \<^verbatim>\<open>ivy.dynamic_backend\<close>.
\<close>

record world =
  backend_stack :: "string list"
  dynamic_backend :: bool

text \<open>
  Modelled from the spec: \<^verbatim>\<open>ivy.utils.backend.handler\<close> is not among the
  sources. Section 4.2: \<^verbatim>\<open>set_backend\<close> and \<^verbatim>\<open>previous_backend\<close> push and pop
  a global stack; \<^verbatim>\<open>current_backend(*args)\<close> returns the backend pushed last if
  there is one, otherwise the backend of the first argument that carries a backend
  identity, otherwise the process default. \<^verbatim>\<open>current_backend_str()\<close> is the name of
  the explicitly set backend and the empty string when none is set: this is the case
  \<^verbatim>\<open>self.backend == ""\<close> of \<^verbatim>\<open>__repr__\<close> (``the array was constructed using
  implicit backend'') and the empty backend name of section 6 (``possibly empty, meaning
  infer'').
\<close>

definition set_backend :: "string \<Rightarrow> world \<Rightarrow> world" where
  "set_backend b w = w\<lparr>backend_stack := backend_stack w @ [b]\<rparr>"

definition previous_backend :: "world \<Rightarrow> world" where
  "previous_backend w = w\<lparr>backend_stack := butlast (backend_stack w)\<rparr>"

definition current_backend_str :: "world \<Rightarrow> string" where
  "current_backend_str w =
     (if backend_stack w = [] then [] else last (backend_stack w))"

definition default_backend :: string where
  "default_backend = ''numpy''"

fun backend_identity :: "pyobj \<Rightarrow> string option" where
  "backend_identity (IvyArray a) = Some (lib (u_data a))"
| "backend_identity (Native n) = Some (lib n)"
| "backend_identity (Scalar i) = None"
| "backend_identity PyNone = None"

fun first_identity :: "pyobj list \<Rightarrow> string option" where
  "first_identity [] = None"
| "first_identity (x # xs) =
     (case backend_identity x of Some b \<Rightarrow> Some b | None \<Rightarrow> first_identity xs)"

definition current_backend :: "world \<Rightarrow> pyobj list \<Rightarrow> string" where
  "current_backend w args =
     (if backend_stack w \<noteq> [] then last (backend_stack w)
      else case first_identity args of Some b \<Rightarrow> b | None \<Rightarrow> default_backend)"

text \<open>
  Modelled from the spec: \<^verbatim>\<open>ivy.is_native_array\<close> and \<^verbatim>\<open>ivy.is_ivy_array\<close>
  are not among the sources. Section 3: a native tensor is produced and consumed by
  exactly one backend library, so a value is a native array for the resolved backend
  when it is a tensor of that backend's library; an \<^verbatim>\<open>ivy.Array\<close> is one whose
  wrapped data is such a tensor.
\<close>

fun is_native_array :: "world \<Rightarrow> pyobj \<Rightarrow> bool" where
  "is_native_array w (Native n) = (lib n = current_backend w [Native n])"
| "is_native_array w (IvyArray a) = False"
| "is_native_array w (Scalar i) = False"
| "is_native_array w PyNone = False"

fun is_ivy_array :: "world \<Rightarrow> pyobj \<Rightarrow> bool" where
  "is_ivy_array w (IvyArray a) = is_native_array w (Native (u_data a))"
| "is_ivy_array w (Native n) = False"
| "is_ivy_array w (Scalar i) = False"
| "is_ivy_array w PyNone = False"

fun is_ndarray :: "pyobj \<Rightarrow> bool" where
  "is_ndarray (Native n) = (lib n = ''numpy'')"
| "is_ndarray (IvyArray a) = False"
| "is_ndarray (Scalar i) = False"
| "is_ndarray PyNone = False"

section \<open>Primitives of the backends\<close>

text \<open>
  The primitives that \<^verbatim>\<open>array.py\<close> calls are implemented per backend, outside the
  sources. They are parameters of the model: every theorem below holds for whatever
  functions stand here. A primitive that dispatches on a backend takes the backend's
  name first; one that can raise returns a sum. \<open>native_detach\<close> is the method
  \<^verbatim>\<open>detach\<close> of the wrapped tensor, which a tensor that is not of \<open>torch\<close>
  does not have; \<open>ivy_scatter_nd\<close> is what the backend computes from the query, the
  value and the buffer of \<^verbatim>\<open>out\<close>.
\<close>

datatype query = Index int | Ellipsis

record prims =
  ivy_dtype :: "native \<Rightarrow> string"
  ivy_dev :: "native \<Rightarrow> string"
  ivy_itemsize :: "native \<Rightarrow> nat"
  ivy_strides :: "native \<Rightarrow> nat list"
  ivy_as_ivy_dev :: "string \<Rightarrow> string"
  ivy_asarray :: "string \<Rightarrow> native \<Rightarrow> error + native"
  ivy_variable :: "string \<Rightarrow> native \<Rightarrow> error + native"
  ivy_get_item :: "native \<Rightarrow> query \<Rightarrow> error + pyobj"
  ivy_isscalar :: "pyobj \<Rightarrow> bool"
  ivy_ones_like_mul :: "pyobj \<Rightarrow> pyobj \<Rightarrow> error + pyobj"
  ivy_scatter_nd :: "query \<Rightarrow> pyobj \<Rightarrow> native \<Rightarrow> error + native"
  native_detach :: "native \<Rightarrow> error + native"
  native_setitem :: "native \<Rightarrow> query \<Rightarrow> pyobj \<Rightarrow> error + native"
  is_variable :: "string \<Rightarrow> native \<Rightarrow> bool"
  to_numpy :: "string \<Rightarrow> native \<Rightarrow> error + native"
  variable_data :: "string \<Rightarrow> native \<Rightarrow> error + native"

text \<open>
  What a call does besides returning: the primitives it invoked, in order. An access
  to a derived field that is answered from its cache leaves no event.
\<close>

datatype event =
    Compute string
  | Detach
  | GetItem query
  | OnesLikeMul
  | NativeSetitem native query pyobj
  | ScatterNd query pyobj native

section \<open>Construction: \<^verbatim>\<open>Array._init\<close>\<close>

text \<open>
  The three accepted kinds of \<^verbatim>\<open>data\<close>, in the order of the source's
  \<^verbatim>\<open>if\<close>/\<^verbatim>\<open>elif\<close> chain, and the exception of its \<^verbatim>\<open>else\<close>. The tests are
  the type tests of the source: an \<^verbatim>\<open>ivy.Array\<close> is neither a native array nor an
  ndarray.
\<close>

fun init_data :: "prims \<Rightarrow> world \<Rightarrow> pyobj \<Rightarrow> error + native" where
  "init_data P w (IvyArray x) =
     (if is_ivy_array w (IvyArray x) then Inr (u_data x) else Inl IvyException)"
| "init_data P w (Native n) =
     (if is_native_array w (Native n) then Inr n
      else if is_ndarray (Native n)
        then ivy_asarray P (current_backend w [Native n]) n
      else Inl IvyException)"
| "init_data P w (Scalar i) = Inl IvyException"
| "init_data P w PyNone = Inl IvyException"

definition Array_init ::
  "prims \<Rightarrow> world \<Rightarrow> array \<Rightarrow> pyobj \<Rightarrow> bool option \<Rightarrow> error + array" where
  "Array_init P w self data dyn =
     (case init_data P w data of
        Inl e \<Rightarrow> Inl e
      | Inr d \<Rightarrow>
          Inr (self\<lparr>u_data := d,
                    u_size := None,
                    u_strides := None,
                    u_itemsize := None,
                    u_dtype := None,
                    u_device := None,
                    u_dev_str := None,
                    u_pre_repr := None,
                    u_post_repr := None,
                    backend := current_backend_str w,
                    u_dynamic_backend :=
                      (case dyn of Some v \<Rightarrow> v | None \<Rightarrow> dynamic_backend w),
                    weak_type := False\<rparr>))"

text \<open>
  \<^verbatim>\<open>Array.__init__\<close> runs \<^verbatim>\<open>_init\<close> on an object that has no attribute yet.
  (The view bookkeeping that \<^verbatim>\<open>_view_attributes\<close> binds next plays no part below.)
\<close>

definition unbound :: array where
  "unbound =
     \<lparr>u_data = \<lparr>lib = [], dims = [], elems = [], dtype_name = [],
                 requires_grad = False\<rparr>,
      u_size = None, u_strides = None, u_itemsize = None, u_dtype = None,
      u_device = None, u_dev_str = None, u_pre_repr = None, u_post_repr = None,
      backend = [], u_dynamic_backend = False, weak_type = False,
      u_backend = None\<rparr>"

definition Array :: "prims \<Rightarrow> world \<Rightarrow> pyobj \<Rightarrow> bool option \<Rightarrow> error + array" where
  "Array P w data dyn = Array_init P w unbound data dyn"

section \<open>Properties\<close>


definition Array_device :: "prims \<Rightarrow> array \<Rightarrow> string \<times> array \<times> event list" where
  "Array_device P self =
     (case u_device self of
        None \<Rightarrow>
          (let v = ivy_dev P (u_data self)
           in (v, self\<lparr>u_device := Some v\<rparr>, [Compute ''device'']))
      | Some v \<Rightarrow> (v, self, []))"

definition Array_ndim :: "array \<Rightarrow> nat" where
  "Array_ndim self = length (dims (u_data self))"


text \<open>
  \<^verbatim>\<open>functools.reduce(mul, shape)\<close> without an initial value: the first dimension
  is the start, the others are multiplied on from the left. It is only called on a
  non-empty shape.
\<close>

fun reduce_mul :: "nat list \<Rightarrow> nat" where
  "reduce_mul [] = 0"
| "reduce_mul (d # ds) = foldl (*) d ds"

definition Array_size :: "array \<Rightarrow> nat \<times> array \<times> event list" where
  "Array_size self =
     (case u_size self of
        None \<Rightarrow>
          (let v = (if length (dims (u_data self)) > 0
                    then reduce_mul (dims (u_data self)) else 0)
           in (v, self\<lparr>u_size := Some v\<rparr>, [Compute ''size'']))
      | Some v \<Rightarrow> (v, self, []))"



text \<open>
  The setter of \<^verbatim>\<open>data\<close>: \<^verbatim>\<open>check_true(ivy.is_native_array(data))\<close> raises when
  the value is no native array, then \<^verbatim>\<open>_init\<close> runs again on the same object.
\<close>

definition Array_data_setter :: "prims \<Rightarrow> world \<Rightarrow> array \<Rightarrow> pyobj \<Rightarrow> error + array" where
  "Array_data_setter P w self data =
     (if is_native_array w data then Array_init P w self data None
      else Inl IvyException)"

section \<open>Indexed assignment: \<^verbatim>\<open>Array.__setitem__\<close>\<close>

text \<open>
  A method that assigns to \<^verbatim>\<open>self\<close> before it may raise returns the exception
  (if any), the object as the call leaves it, and the events.
\<close>

definition unwrap_val :: "world \<Rightarrow> pyobj \<Rightarrow> pyobj" where
  "unwrap_val w val =
     (case val of
        IvyArray x \<Rightarrow> (if is_ivy_array w val then Native (u_data x) else val)
      | _ \<Rightarrow> val)"

text \<open>
  \<^verbatim>\<open>if ivy.current_backend_str() == "torch": self._data = self._data.detach()\<close>.
  When the call of \<^verbatim>\<open>detach\<close> raises, nothing has been assigned.
\<close>

definition pre_detach :: "prims \<Rightarrow> world \<Rightarrow> array \<Rightarrow> (error + array) \<times> event list" where
  "pre_detach P w self =
     (if current_backend_str w = ''torch''
      then (case native_detach P (u_data self) of
              Inl e \<Rightarrow> (Inl e, [Detach])
            | Inr d \<Rightarrow> (Inr (self\<lparr>u_data := d\<rparr>), [Detach]))
      else (Inr self, []))"

text \<open>
  Modelled from the spec: the wrappers of \<^verbatim>\<open>ivy.scatter_nd\<close> are not among the
  sources. Section 4.3, step 7: with an \<^verbatim>\<open>out\<close> argument the result of the backend
  is written into \<^verbatim>\<open>out\<close>, and \<^verbatim>\<open>out\<close> itself is returned. The write into an
  array is the assignment \<^verbatim>\<open>x.data = x_native\<close> of \<^verbatim>\<open>inplace_update\<close>
  (\<^verbatim>\<open>paddle/general.py\<close>), that is the setter of \<^verbatim>\<open>data\<close>, which runs
  \<^verbatim>\<open>_init\<close> on \<^verbatim>\<open>out\<close>.
\<close>

definition scatter_into :: "prims \<Rightarrow> world \<Rightarrow> query \<Rightarrow> pyobj \<Rightarrow> array \<Rightarrow> error + array" where
  "scatter_into P w q val out =
     (case ivy_scatter_nd P q val (u_data out) of
        Inl e \<Rightarrow> Inl e
      | Inr d \<Rightarrow> Array_data_setter P w out (Native d))"

text \<open>
  The \<^verbatim>\<open>try\<close> statement: the native assignment mutates the wrapped tensor in
  place; any exception of it is caught and the scatter-based replacement runs with
  \<^verbatim>\<open>out=self\<close>, whose own exception is not caught. What it returns is
  \<^verbatim>\<open>self\<close>, so that \<^verbatim>\<open>self._data = (...)._data\<close> rebinds what the write-back
  has bound; the cached dtype is computed from it.
\<close>

definition try_assign ::
  "prims \<Rightarrow> world \<Rightarrow> array \<Rightarrow> query \<Rightarrow> pyobj \<Rightarrow> error option \<times> array \<times> event list" where
  "try_assign P w self q val =
     (case native_setitem P (u_data self) q val of
        Inr d \<Rightarrow> (None, self\<lparr>u_data := d\<rparr>, [NativeSetitem (u_data self) q val])
      | Inl e \<Rightarrow>
          (case scatter_into P w q val self of
             Inl e' \<Rightarrow>
               (Some e', self,
                [NativeSetitem (u_data self) q val, ScatterNd q val (u_data self)])
           | Inr out \<Rightarrow>
               (None, out\<lparr>u_data := u_data out, u_dtype := Some (ivy_dtype P (u_data out))\<rparr>,
                [NativeSetitem (u_data self) q val, ScatterNd q val (u_data self),
                 Compute ''dtype''])))"

text \<open>
  \<^verbatim>\<open>if not ivy.isscalar(target) and ivy.isscalar(val): val = ivy.ones_like(target) * val\<close>
\<close>

definition broadcast_val :: "prims \<Rightarrow> pyobj \<Rightarrow> pyobj \<Rightarrow> (error + pyobj) \<times> event list" where
  "broadcast_val P target val =
     (if \<not> ivy_isscalar P target \<and> ivy_isscalar P val
      then (ivy_ones_like_mul P target val, [OnesLikeMul])
      else (Inr val, []))"

text \<open>The statements of \<^verbatim>\<open>__setitem__\<close> that follow the detach.\<close>

definition setitem_body ::
  "prims \<Rightarrow> world \<Rightarrow> array \<Rightarrow> query \<Rightarrow> pyobj \<Rightarrow> error option \<times> array \<times> event list" where
  "setitem_body P w self q val0 =
     (let val = unwrap_val w val0
      in case ivy_get_item P (u_data self) q of
           Inl e \<Rightarrow> (Some e, self, [GetItem q])
         | Inr target \<Rightarrow>
             (case broadcast_val P target val of
                (Inl e, evb) \<Rightarrow> (Some e, self, [GetItem q] @ evb)
              | (Inr val', evb) \<Rightarrow>
                  (case try_assign P w self q val' of
                     (r, self', ev2) \<Rightarrow> (r, self', [GetItem q] @ evb @ ev2))))"

definition Array_setitem ::
  "prims \<Rightarrow> world \<Rightarrow> array \<Rightarrow> query \<Rightarrow> pyobj \<Rightarrow> error option \<times> array \<times> event list" where
  "Array_setitem P w self0 q val0 =
     (case pre_detach P w self0 of
        (Inl e, ev1) \<Rightarrow> (Some e, self0, ev1)
      | (Inr self, ev1) \<Rightarrow>
          (case setitem_body P w self q val0 of
             (r, self', ev) \<Rightarrow> (r, self', ev1 @ ev)))"

section \<open>The setter of \<^verbatim>\<open>dynamic_backend\<close>\<close>

text \<open>
  Modelled from the spec: \<^verbatim>\<open>_determine_backend_from_args\<close> is not among the
  sources. Section 4.1: turning the flag off re-derives the backend from the array's
  current state, that is from the library of the tensor it wraps.
\<close>

definition determine_backend_from_args :: "array \<Rightarrow> string" where
  "determine_backend_from_args self = lib (u_data self)"

text \<open>\<^verbatim>\<open>str(self._backend).__contains__(s)\<close>: \<open>s\<close> occurs in the module's name.\<close>

fun starts_with :: "string \<Rightarrow> string \<Rightarrow> bool" where
  "starts_with [] s = True"
| "starts_with (c # cs) [] = False"
| "starts_with (c # cs) (d # ds) = (c = d \<and> starts_with cs ds)"

fun str_contains :: "string \<Rightarrow> string \<Rightarrow> bool" where
  "str_contains [] s = (s = [])"
| "str_contains (d # ds) s = (starts_with s (d # ds) \<or> str_contains ds s)"

text \<open>
  \<^verbatim>\<open>ivy.array(x)\<close> converts under the current backend and wraps the result in a
  new \<^verbatim>\<open>ivy.Array\<close>; \<^verbatim>\<open>_variable(new_arr).data\<close> makes a tracked tensor of
  its data. Both run under the backend that is current when the setter runs, while
  \<^verbatim>\<open>is_variable\<close>, \<^verbatim>\<open>variable_data\<close> and \<^verbatim>\<open>to_numpy\<close> are those of the
  module \<^verbatim>\<open>self._backend\<close>.
\<close>

definition ivy_array :: "prims \<Rightarrow> world \<Rightarrow> native \<Rightarrow> error + array" where
  "ivy_array P w x =
     (case ivy_asarray P (current_backend w [Native x]) x of
        Inl e \<Rightarrow> Inl e
      | Inr d \<Rightarrow> Array P w (Native d) None)"

definition rematerialize :: "prims \<Rightarrow> world \<Rightarrow> string \<Rightarrow> native \<Rightarrow> error + native" where
  "rematerialize P w bk d =
     (if is_variable P bk d \<and> \<not> (str_contains bk ''jax'' \<or> str_contains bk ''numpy'')
      then (case variable_data P bk d of
              Inl e \<Rightarrow> Inl e
            | Inr native_data \<Rightarrow>
                (case to_numpy P bk native_data of
                   Inl e \<Rightarrow> Inl e
                 | Inr np_data \<Rightarrow>
                     (case ivy_array P w np_data of
                        Inl e \<Rightarrow> Inl e
                      | Inr new_arr \<Rightarrow>
                          ivy_variable P (current_backend w [IvyArray new_arr])
                            (u_data new_arr))))
      else (case to_numpy P bk d of
              Inl e \<Rightarrow> Inl e
            | Inr np_data \<Rightarrow>
                (case ivy_array P w np_data of
                   Inl e \<Rightarrow> Inl e
                 | Inr new_arr \<Rightarrow> Inr (u_data new_arr))))"

definition Array_dynamic_backend_setter ::
  "prims \<Rightarrow> world \<Rightarrow> array \<Rightarrow> bool \<Rightarrow> error + array" where
  "Array_dynamic_backend_setter P w self val =
     (if val = False
      then Inr (self\<lparr>u_backend := Some (determine_backend_from_args self),
                     u_dynamic_backend := val\<rparr>)
      else (case u_backend self of
              None \<Rightarrow> Inl AttributeError
            | Some bk \<Rightarrow>
                (case rematerialize P w bk (u_data self) of
                   Inl e \<Rightarrow> Inl e
                 | Inr d \<Rightarrow> Inr (self\<lparr>u_data := d, u_dynamic_backend := val\<rparr>))))"

section \<open>Serialization: \<^verbatim>\<open>__getstate__\<close> and \<^verbatim>\<open>__setstate__\<close>\<close>

record pickled =
  st_data :: native
  st_backend :: "string option"
  st_device_str :: string

definition Array_getstate :: "prims \<Rightarrow> array \<Rightarrow> pickled \<times> array" where
  "Array_getstate P self =
     (case Array_device P self of
        (dev, self', ev) \<Rightarrow>
          (\<lparr>st_data = u_data self', st_backend = Some (backend self'),
            st_device_str = ivy_as_ivy_dev P dev\<rparr>, self'))"

text \<open>
  \<^verbatim>\<open>__setstate__\<close>: the conditional expression pushes the recorded backend when
  its name is not \<^verbatim>\<open>None\<close> and not empty, and otherwise only resolves a backend
  from the payload, which pushes nothing; \<^verbatim>\<open>ivy.previous_backend()\<close> then runs in
  both cases. The statements are not guarded: when \<^verbatim>\<open>ivy.array\<close> raises, the
  function is left at once. The new object's attributes replace those of \<^verbatim>\<open>self\<close>.
\<close>

definition activate :: "pickled \<Rightarrow> world \<Rightarrow> world" where
  "activate state w =
     (case st_backend state of
        None \<Rightarrow> w
      | Some b \<Rightarrow> (if length b > 0 then set_backend b w else w))"

definition Array_setstate ::
  "prims \<Rightarrow> world \<Rightarrow> array \<Rightarrow> pickled \<Rightarrow> (error + array) \<times> world" where
  "Array_setstate P w self state =
     (let w1 = activate state w
      in case ivy_array P w1 (st_data state) of
           Inl e \<Rightarrow> (Inl e, w1)
         | Inr ivy_arr \<Rightarrow> (Inr ivy_arr, previous_backend w1))"

section \<open>Containers and the multi-map\<close>

text \<open>
  A container is an ordered mapping from string keys to values that are leaves or
  containers again; the keys of one level are unique (\<open>wf_cont\<close>). An argument of a
  primitive that is no container is a \<open>Leaf\<close>.
\<close>

datatype 'a cont = Leaf 'a | Cont "(string \<times> 'a cont) list"

fun is_container :: "'a cont \<Rightarrow> bool" where
  "is_container (Leaf x) = False"
| "is_container (Cont kvs) = True"

fun wf_cont :: "'a cont \<Rightarrow> bool" where
  "wf_cont (Leaf x) = True"
| "wf_cont (Cont kvs) =
     (distinct (map fst kvs) \<and> list_all (\<lambda>kv. wf_cont (snd kv)) kvs)"

text \<open>The key structure of a container: the tree of its keys, leaves forgotten.\<close>

definition key_structure :: "'a cont \<Rightarrow> unit cont" where
  "key_structure c = map_cont (\<lambda>x. ()) c"

fun keys_of :: "'a cont \<Rightarrow> string list" where
  "keys_of (Leaf x) = []"
| "keys_of (Cont kvs) = map fst kvs"

text \<open>
  Modelled from the spec: \<^verbatim>\<open>ContainerBase.cont_multi_map\<close> is not among the sources
  (\<^verbatim>\<open>static_moveaxis\<close> only calls \<^verbatim>\<open>cont_multi_map_in_function\<close>). Section 4.4:
  the multi-map walks the union of the key paths of the supplied containers, in
  insertion order at each level, and at each leaf path hands the operation the
  corresponding leaf of each container, \<^verbatim>\<open>None\<close> for a container that lacks the
  path; an argument that is no container is handed on to every leaf. It returns a new
  container. With \<^verbatim>\<open>key_chains\<close>, only the listed paths are visited, or with
  \<^verbatim>\<open>to_apply=False\<close> only the others; a path that is not visited keeps the leaf of
  the first container, or is left out when \<^verbatim>\<open>prune_unapplied\<close> is set. An exception
  of the operation at one leaf ends the whole multi-map. (\<^verbatim>\<open>map_sequences\<close>
  concerns list leaves, which the values here do not have.)
\<close>

definition all_keys :: "'a cont list \<Rightarrow> string list" where
  "all_keys cs = rev (remdups (rev (concat (map keys_of cs))))"

fun sub :: "string \<Rightarrow> pyobj cont \<Rightarrow> pyobj cont" where
  "sub k (Leaf x) = Leaf x"
| "sub k (Cont kvs) = (case map_of kvs k of Some v \<Rightarrow> v | None \<Rightarrow> Leaf PyNone)"

fun leaf_value :: "pyobj cont \<Rightarrow> pyobj" where
  "leaf_value (Leaf x) = x"
| "leaf_value (Cont kvs) = PyNone"

fun csize :: "'a cont \<Rightarrow> nat" where
  "csize (Leaf x) = 0"
| "csize (Cont kvs) = Suc (sum_list (map (\<lambda>kv. csize (snd kv)) kvs))"

lemma csize_map_of: "map_of kvs k = Some v \<Longrightarrow> csize v < csize (Cont kvs)"
  by (induction kvs) (auto split: if_splits)

lemma csize_sub_le: "csize (sub k c) \<le> csize c"
  by (cases c) (auto split: option.splits dest: csize_map_of less_imp_le simp del: csize.simps(2))

lemma csize_sub_less: "is_container c \<Longrightarrow> csize (sub k c) < csize c"
  by (cases c) (auto split: option.splits dest: csize_map_of)

lemma sum_csize_sub:
  assumes "\<exists>c\<in>set cs. is_container c"
  shows "sum_list (map (\<lambda>c. csize (sub k c)) cs) < sum_list (map csize cs)"
  using assms
proof (induction cs)
  case Nil
  then show ?case by simp
next
  case (Cons c cs)
  have le: "sum_list (map (\<lambda>c. csize (sub k c)) cs) \<le> sum_list (map csize cs)"
    by (induction cs) (auto intro: add_mono csize_sub_le)
  show ?case
  proof (cases "is_container c")
    case True
    then show ?thesis using le csize_sub_less[of c k] by simp
  next
    case False
    then have "\<exists>c\<in>set cs. is_container c" using Cons.prems by auto
    then show ?thesis using Cons.IH csize_sub_le[of k c] by simp
  qed
qed

function cont_zip :: "pyobj cont list \<Rightarrow> pyobj list cont" where
  "cont_zip cs =
     (if list_ex is_container cs
      then Cont (map (\<lambda>k. (k, cont_zip (map (sub k) cs))) (all_keys cs))
      else Leaf (map leaf_value cs))"
  by pat_completeness auto
termination
  by (relation "measure (\<lambda>cs. sum_list (map csize cs))")
     (auto simp: list_ex_iff o_def intro: sum_csize_sub)

declare cont_zip.simps [simp del]

record mm_flags =
  key_chains :: "string list list option"
  to_apply :: bool
  prune_unapplied :: bool

definition default_flags :: mm_flags where
  "default_flags = \<lparr>key_chains = None, to_apply = True, prune_unapplied = False\<rparr>"

definition unapplied :: "mm_flags \<Rightarrow> string list \<Rightarrow> bool" where
  "unapplied fl p =
     (case key_chains fl of
        None \<Rightarrow> False
      | Some kcs \<Rightarrow> (p \<in> set kcs) \<noteq> to_apply fl)"

text \<open>
  A function of the pipeline takes the arguments of one call and returns its result
  together with the calls of the backend primitive that it made, each call being the
  list of arguments the primitive was invoked with.
\<close>

type_synonym call = "pyobj cont list"

type_synonym fn = "call \<Rightarrow> (error + pyobj cont) \<times> call list"

fun apply_tree ::
    "mm_flags \<Rightarrow> fn \<Rightarrow> string list \<Rightarrow> pyobj list cont \<Rightarrow>
     (error + pyobj cont option) \<times> call list"
  and apply_entries ::
    "mm_flags \<Rightarrow> fn \<Rightarrow> string list \<Rightarrow> (string \<times> pyobj list cont) list \<Rightarrow>
     (error + (string \<times> pyobj cont) list) \<times> call list"
where
  "apply_tree fl f p (Leaf vs) =
     (if unapplied fl p
      then (if prune_unapplied fl then (Inr None, [])
            else (Inr (Some (Leaf (hd vs))), []))
      else (case f (map Leaf vs) of
              (Inl e, tr) \<Rightarrow> (Inl e, tr)
            | (Inr r, tr) \<Rightarrow> (Inr (Some r), tr)))"
| "apply_tree fl f p (Cont kvs) =
     (case apply_entries fl f p kvs of
        (Inl e, tr) \<Rightarrow> (Inl e, tr)
      | (Inr rs, tr) \<Rightarrow> (Inr (Some (Cont rs)), tr))"
| "apply_entries fl f p [] = (Inr [], [])"
| "apply_entries fl f p (kv # kvs) =
     (case apply_tree fl f (p @ [fst kv]) (snd kv) of
        (Inl e, tr) \<Rightarrow> (Inl e, tr)
      | (Inr r, tr) \<Rightarrow>
          (case apply_entries fl f p kvs of
             (Inl e, tr') \<Rightarrow> (Inl e, tr @ tr')
           | (Inr rs, tr') \<Rightarrow>
               (Inr (case r of None \<Rightarrow> rs | Some t \<Rightarrow> (fst kv, t) # rs), tr @ tr')))"

definition multi_map :: "mm_flags \<Rightarrow> fn \<Rightarrow> pyobj cont list \<Rightarrow> (error + pyobj cont) \<times> call list" where
  "multi_map fl f cs =
     (case apply_tree fl f [] (cont_zip cs) of
        (Inl e, tr) \<Rightarrow> (Inl e, tr)
      | (Inr None, tr) \<Rightarrow> (Inr (Cont []), tr)
      | (Inr (Some r), tr) \<Rightarrow> (Inr r, tr))"

text \<open>An operation on leaves, as a function of the pipeline that calls no backend.\<close>

definition leaf_op :: "(pyobj list \<Rightarrow> error + pyobj) \<Rightarrow> fn" where
  "leaf_op op args =
     (case op (map leaf_value args) of
        Inl e \<Rightarrow> (Inl e, [])
      | Inr r \<Rightarrow> (Inr (Leaf r), []))"

section \<open>The dispatch pipeline\<close>

text \<open>
  The decorators that \<^verbatim>\<open>searching.py\<close> and
  \<^verbatim>\<open>experimental/linear_algebra.py\<close> put on their primitives, and for each
  primitive its chain as the source lists it, top to bottom. Python applies the
  decorator written last first, so the one written first is the outermost wrapper.
\<close>

datatype decorator =
    handle_exceptions
  | handle_nestable
  | handle_array_like_without_promotion
  | handle_out_argument
  | to_native_arrays_and_back
  | handle_array_function

datatype primitive =
    argmax | argmin | nonzero | ivy_where | argwhere
  | eigh_tridiagonal | diagflat | kron | matrix_exp | eig | eigvals | adjoint
  | multi_dot | cond | cov

fun decorators :: "primitive \<Rightarrow> decorator list" where
  "decorators argmax =
     [handle_exceptions, handle_nestable, handle_array_like_without_promotion,
      handle_out_argument, to_native_arrays_and_back, handle_array_function]"
| "decorators argmin =
     [handle_exceptions, handle_nestable, handle_array_like_without_promotion,
      handle_out_argument, to_native_arrays_and_back, handle_array_function]"
| "decorators nonzero =
     [handle_exceptions, handle_nestable, handle_array_like_without_promotion,
      to_native_arrays_and_back, handle_array_function]"
| "decorators ivy_where =
     [handle_exceptions, handle_nestable, handle_array_like_without_promotion,
      handle_out_argument, to_native_arrays_and_back, handle_array_function]"
| "decorators argwhere =
     [handle_exceptions, handle_nestable, handle_array_like_without_promotion,
      handle_out_argument, to_native_arrays_and_back, handle_array_function]"
| "decorators eigh_tridiagonal =
     [handle_exceptions, handle_nestable, handle_array_like_without_promotion,
      handle_array_function]"
| "decorators diagflat =
     [handle_exceptions, handle_nestable, handle_array_like_without_promotion,
      handle_out_argument, to_native_arrays_and_back]"
| "decorators kron =
     [handle_exceptions, handle_nestable, handle_array_like_without_promotion,
      handle_out_argument, to_native_arrays_and_back]"
| "decorators matrix_exp =
     [handle_exceptions, handle_nestable, handle_array_like_without_promotion,
      handle_out_argument, to_native_arrays_and_back]"
| "decorators eig =
     [handle_exceptions, handle_nestable, handle_array_like_without_promotion,
      to_native_arrays_and_back]"
| "decorators eigvals =
     [handle_exceptions, handle_nestable, handle_array_like_without_promotion,
      to_native_arrays_and_back]"
| "decorators adjoint =
     [handle_exceptions, handle_nestable, handle_array_like_without_promotion,
      handle_out_argument, to_native_arrays_and_back]"
| "decorators multi_dot =
     [handle_nestable, handle_out_argument, to_native_arrays_and_back,
      handle_exceptions]"
| "decorators cond =
     [handle_exceptions, handle_nestable, handle_array_like_without_promotion,
      handle_out_argument, to_native_arrays_and_back]"
| "decorators cov =
     [handle_exceptions, handle_nestable, handle_array_like_without_promotion,
      to_native_arrays_and_back]"

text \<open>
  \<open>encloses a b ds\<close>: in the chain \<open>ds\<close>, wherever the wrapper \<open>b\<close> occurs, the
  wrapper \<open>a\<close> occurs before it, that is outside it.
\<close>

definition encloses :: "decorator \<Rightarrow> decorator \<Rightarrow> decorator list \<Rightarrow> bool" where
  "encloses a b ds = (if b \<in> set ds then a \<in> set (takeWhile (\<lambda>d. d \<noteq> b) ds) else True)"

text \<open>
  Modelled from the spec: \<^verbatim>\<open>ivy.func_wrapper\<close> is not among the sources.
  Section 4.3: nestable recursion does not call the wrapped function when an argument
  is a container, but re-invokes it per leaf through the multi-map and collects the
  results in a new container; native unwrapping replaces every array among the
  arguments by its native handle and wraps a native result back into an array. The
  other wrappers (exceptions, coercion of scalars, the \<^verbatim>\<open>out\<close> argument, array
  functions) hand the arguments on: none of them makes or removes a container. The
  body of a primitive calls the resolved backend's primitive with the arguments it
  was given.
\<close>

definition to_native :: "pyobj cont \<Rightarrow> pyobj cont" where
  "to_native c =
     map_cont (\<lambda>x. case x of IvyArray a \<Rightarrow> Native (u_data a) | _ \<Rightarrow> x) c"

definition to_ivy :: "prims \<Rightarrow> world \<Rightarrow> pyobj cont \<Rightarrow> error + pyobj cont" where
  "to_ivy P w r =
     (case r of
        Leaf (Native n) \<Rightarrow>
          (case Array P w (Native n) None of
             Inl e \<Rightarrow> Inl e
           | Inr a \<Rightarrow> Inr (Leaf (IvyArray a)))
      | _ \<Rightarrow> Inr r)"

definition invoke :: "(call \<Rightarrow> error + pyobj cont) \<Rightarrow> fn" where
  "invoke bp args = (bp args, [args])"

fun wrap :: "prims \<Rightarrow> world \<Rightarrow> mm_flags \<Rightarrow> decorator \<Rightarrow> fn \<Rightarrow> fn" where
  "wrap P w fl handle_nestable f =
     (\<lambda>args. if list_ex is_container args then multi_map fl f args else f args)"
| "wrap P w fl to_native_arrays_and_back f =
     (\<lambda>args. case f (map to_native args) of
                (Inl e, tr) \<Rightarrow> (Inl e, tr)
              | (Inr r, tr) \<Rightarrow> (to_ivy P w r, tr))"
| "wrap P w fl handle_exceptions f = f"
| "wrap P w fl handle_array_like_without_promotion f = f"
| "wrap P w fl handle_out_argument f = f"
| "wrap P w fl handle_array_function f = f"

definition pipeline ::
  "prims \<Rightarrow> world \<Rightarrow> mm_flags \<Rightarrow> decorator list \<Rightarrow> (call \<Rightarrow> error + pyobj cont) \<Rightarrow> fn" where
  "pipeline P w fl ds bp = foldr (wrap P w fl) ds (invoke bp)"

section \<open>An instance of the primitives\<close>

text \<open>
  One instance of the primitives, on which the definitions are evaluated at concrete
  inputs: one-dimensional tensors indexed by one integer or by \<^verbatim>\<open>...\<close>. Tensors of
  \<open>''jax''\<close> and \<open>''tensorflow''\<close> are immutable, so their native assignment
  raises; only a tensor of \<open>''torch''\<close> has the method \<^verbatim>\<open>detach\<close>; a tracked
  tensor cannot be converted to numpy before it is detached.
\<close>

definition assign :: "native \<Rightarrow> query \<Rightarrow> pyobj \<Rightarrow> error + native" where
  "assign d q val =
     (case q of
        Index i \<Rightarrow>
          (if 0 \<le> i \<and> nat i < length (elems d)
           then (case val of
                   Scalar v \<Rightarrow> Inr (d\<lparr>elems := (elems d)[nat i := v]\<rparr>)
                 | Native t \<Rightarrow>
                     (case elems t of
                        [v] \<Rightarrow> Inr (d\<lparr>elems := (elems d)[nat i := v]\<rparr>)
                      | _ \<Rightarrow> Inl TypeError)
                 | _ \<Rightarrow> Inl TypeError)
           else Inl IndexError)
      | Ellipsis \<Rightarrow>
          (case val of
             Native t \<Rightarrow>
               (if length (elems t) = length (elems d)
                then Inr (d\<lparr>elems := elems t\<rparr>) else Inl TypeError)
           | _ \<Rightarrow> Inl TypeError))"

definition ref_get_item :: "native \<Rightarrow> query \<Rightarrow> error + pyobj" where
  "ref_get_item d q =
     (case q of
        Index i \<Rightarrow>
          (if 0 \<le> i \<and> nat i < length (elems d)
           then Inr (Native (d\<lparr>dims := [], elems := [elems d ! nat i]\<rparr>))
           else Inl IndexError)
      | Ellipsis \<Rightarrow> Inr (Native d))"

definition ref_ones_like_mul :: "pyobj \<Rightarrow> pyobj \<Rightarrow> error + pyobj" where
  "ref_ones_like_mul target val =
     (case (target, val) of
        (Native t, Scalar v) \<Rightarrow> Inr (Native (t\<lparr>elems := map (\<lambda>x. v) (elems t)\<rparr>))
      | _ \<Rightarrow> Inl TypeError)"

definition ref_prims :: prims where
  "ref_prims =
     \<lparr>ivy_dtype = dtype_name,
      ivy_dev = (\<lambda>d. ''cpu''),
      ivy_itemsize = (\<lambda>d. 8),
      ivy_strides = (\<lambda>d. map (\<lambda>n. 8) (dims d)),
      ivy_as_ivy_dev = (\<lambda>s. s),
      ivy_asarray = (\<lambda>b d. Inr (d\<lparr>lib := b\<rparr>)),
      ivy_variable = (\<lambda>b d. Inr (d\<lparr>requires_grad := True\<rparr>)),
      ivy_get_item = ref_get_item,
      ivy_isscalar = (\<lambda>x. case x of Scalar v \<Rightarrow> True | _ \<Rightarrow> False),
      ivy_ones_like_mul = ref_ones_like_mul,
      ivy_scatter_nd = (\<lambda>q val d. assign d q val),
      native_detach =
        (\<lambda>d. if lib d = ''torch'' then Inr (d\<lparr>requires_grad := False\<rparr>)
             else Inl AttributeError),
      native_setitem =
        (\<lambda>d q val. if lib d = ''jax'' \<or> lib d = ''tensorflow''
                    then Inl TypeError else assign d q val),
      is_variable = (\<lambda>b d. requires_grad d),
      to_numpy =
        (\<lambda>b d. if requires_grad d then Inl TypeError else Inr (d\<lparr>lib := ''numpy''\<rparr>)),
      variable_data = (\<lambda>b d. Inr (d\<lparr>requires_grad := False\<rparr>))\<rparr>"

definition tensor :: "string \<Rightarrow> int list \<Rightarrow> native" where
  "tensor b xs =
     \<lparr>lib = b, dims = [length xs], elems = xs, dtype_name = ''int64'',
      requires_grad = False\<rparr>"

definition world_of :: "string list \<Rightarrow> world" where
  "world_of stack = \<lparr>backend_stack = stack, dynamic_backend = True\<rparr>"

section \<open>Statements of the specification and example values\<close>

text \<open>
  What the specification says of construction: the new array adopts the backend that
  the value identifies, and takes the current one only when the value identifies none.
\<close>

definition adopts_identified_backend :: "world \<Rightarrow> pyobj \<Rightarrow> array \<Rightarrow> bool" where
  "adopts_identified_backend w data a =
     (case backend_identity data of
        Some b \<Rightarrow> backend a = b
      | None \<Rightarrow> backend a = current_backend_str w)"

text \<open>The arrays that construction yields under \<open>torch\<close> and under \<open>numpy\<close>.\<close>

definition torch_array :: array where
  "torch_array =
     unbound\<lparr>u_data := tensor ''torch'' [1, 2, 3], backend := ''torch'',
             u_dynamic_backend := True\<rparr>"

definition numpy_array :: array where
  "numpy_array =
     unbound\<lparr>u_data := tensor ''numpy'' [1, 2, 3], backend := ''numpy'',
             u_dynamic_backend := True\<rparr>"



text \<open>
  The cache of \<^verbatim>\<open>size\<close> is coherent when it is empty or holds what \<^verbatim>\<open>size\<close>
  computes from the shape of the wrapped tensor.
\<close>

definition size_cache_ok :: "array \<Rightarrow> bool" where
  "size_cache_ok a =
     (case u_size a of
        None \<Rightarrow> True
      | Some v \<Rightarrow> v = (if dims (u_data a) = [] then 0 else prod_list (dims (u_data a))))"

definition with_dims :: "nat list \<Rightarrow> array" where
  "with_dims ds = numpy_array\<lparr>u_data := (tensor ''numpy'' [])\<lparr>dims := ds\<rparr>\<rparr>"

text \<open>
  The state that \<^verbatim>\<open>__getstate__\<close> gives for an array of \<open>torch\<close> that was
  constructed while no backend was set: the recorded backend name is empty.
\<close>

definition implicit_state :: pickled where
  "implicit_state =
     \<lparr>st_data = tensor ''torch'' [1, 2, 3], st_backend = Some [],
      st_device_str = ''cpu''\<rparr>"













definition seven :: pyobj where
  "seven = Native ((tensor ''numpy'' [7])\<lparr>dims := []\<rparr>)"

text \<open>
  An operation of the multi-map works on leaves and returns a leaf; the containers and
  the operation of the examples.
\<close>

definition returns_leaves :: "fn \<Rightarrow> bool" where
  "returns_leaves f = (\<forall>args r tr. f args = (Inr r, tr) \<longrightarrow> \<not> is_container r)"

fun scalar_of :: "pyobj \<Rightarrow> int" where
  "scalar_of (Scalar i) = i"
| "scalar_of (IvyArray a) = 0"
| "scalar_of (Native n) = 0"
| "scalar_of PyNone = 0"

definition add_op :: "pyobj list \<Rightarrow> error + pyobj" where
  "add_op vs = Inr (Scalar (sum_list (map scalar_of vs)))"

definition cont_a :: "pyobj cont" where
  "cont_a = Cont [(''a'', Leaf (Scalar 1)), (''b'', Cont [(''c'', Leaf (Scalar 2))])]"

definition cont_b :: "pyobj cont" where
  "cont_b = Cont [(''a'', Leaf (Scalar 10)), (''b'', Cont [(''c'', Leaf (Scalar 20))])]"

definition cont_sum :: "pyobj cont" where
  "cont_sum = Cont [(''a'', Leaf (Scalar 11)), (''b'', Cont [(''c'', Leaf (Scalar 22))])]"

text \<open>
  What the specification says of the pipeline: no call of the backend primitive has a
  container among its arguments. \<open>inside d ds\<close> is the part of the chain \<open>ds\<close>
  that the wrapper \<open>d\<close> encloses.
\<close>

definition container_free :: "call list \<Rightarrow> bool" where
  "container_free calls = list_all (\<lambda>call. \<not> list_ex is_container call) calls"

definition inside :: "decorator \<Rightarrow> decorator list \<Rightarrow> decorator list" where
  "inside d ds = tl (dropWhile (\<lambda>x. x \<noteq> d) ds)"

definition first_arg :: "call \<Rightarrow> error + pyobj cont" where
  "first_arg call = (case call of [] \<Rightarrow> Inl TypeError | x # xs \<Rightarrow> Inr x)"

definition cont_arrays :: "pyobj cont" where
  "cont_arrays = Cont [(''a'', Leaf (IvyArray numpy_array))]"


section \<open>Construction and the \<open>backend\<close> attribute\<close>

text \<open>
  C1, as stated, fails. An array of \<open>torch\<close> (its \<open>backend\<close> attribute and its
  tensor both say so) is wrapped again while no backend is set: construction accepts
  it, and the new array's \<open>backend\<close> is the empty string, not \<open>torch\<close>.
\<close>

theorem construction_backend_counterexample:
  "Array ref_prims (world_of []) (IvyArray torch_array) None =
     Inr (torch_array\<lparr>backend := []\<rparr>) \<and>
   backend torch_array = ''torch'' \<and>
   \<not> adopts_identified_backend (world_of []) (IvyArray torch_array)
       (torch_array\<lparr>backend := []\<rparr>)"
  by (simp add: Array_def Array_init_def world_of_def torch_array_def unbound_def
      tensor_def current_backend_def current_backend_str_def adopts_identified_backend_def)

text \<open>
  C1, amended: for every value that \<^verbatim>\<open>_init\<close> accepts, the \<open>backend\<close> attribute
  it binds is \<^verbatim>\<open>ivy.current_backend_str()\<close>, whatever the value identifies: the
  name of the backend set last, or the empty string when none is set. When a backend
  is set and the value is an array or a native tensor of it, this is the backend that
  the value identifies.
\<close>

theorem construction_backend:
  assumes "Array_init P w self data dyn = Inr a"
  shows "backend a = current_backend_str w \<and>
         (backend_stack w \<noteq> [] \<and> (is_ivy_array w data \<or> is_native_array w data)
            \<longrightarrow> backend_identity data = Some (backend a))"
proof -
  obtain d where d: "init_data P w data = Inr d"
    using assms by (auto simp: Array_init_def split: sum.splits)
  have b: "backend a = current_backend_str w"
    using assms d by (auto simp: Array_init_def)
  have "backend_identity data = Some (backend a)"
    if "backend_stack w \<noteq> []" "is_ivy_array w data \<or> is_native_array w data"
    using that d b
    by (cases data) (auto simp: current_backend_def current_backend_str_def split: if_splits)
  then show ?thesis using b by blast
qed

theorem construction_backend_witness:
  "Array_init ref_prims (world_of [''numpy'', ''torch'']) unbound
     (Native (tensor ''torch'' [1, 2, 3])) None = Inr torch_array \<and>
   backend torch_array = current_backend_str (world_of [''numpy'', ''torch'']) \<and>
   backend_identity (Native (tensor ''torch'' [1, 2, 3])) = Some (backend torch_array)"
proof -
  have h: "Array_init ref_prims (world_of [''numpy'', ''torch'']) unbound
     (Native (tensor ''torch'' [1, 2, 3])) None = Inr torch_array"
    by (simp add: Array_init_def world_of_def torch_array_def unbound_def
        tensor_def current_backend_def current_backend_str_def)
  have p: "backend_stack (world_of [''numpy'', ''torch'']) \<noteq> [] \<and>
     (is_ivy_array (world_of [''numpy'', ''torch'']) (Native (tensor ''torch'' [1, 2, 3])) \<or>
      is_native_array (world_of [''numpy'', ''torch'']) (Native (tensor ''torch'' [1, 2, 3])))"
    by (simp add: world_of_def tensor_def current_backend_def)
  show ?thesis
    using h p construction_backend[OF h] by blast
qed

section \<open>The stages of an indexed assignment\<close>

text \<open>
  The write-back of the fallback: the array that \<^verbatim>\<open>scatter_nd\<close> returns is
  \<^verbatim>\<open>self\<close> after \<^verbatim>\<open>_init\<close> has run on the tensor that the backend computed.
\<close>

lemma scatter_into_result:
  assumes "scatter_into P w q v s = Inr out"
  shows "ivy_scatter_nd P q v (u_data s) = Inr (u_data out) \<and>
         is_native_array w (Native (u_data out)) \<and>
         out = s\<lparr>u_data := u_data out, u_size := None, u_strides := None,
                  u_itemsize := None, u_dtype := None, u_device := None,
                  u_dev_str := None, u_pre_repr := None, u_post_repr := None,
                  backend := current_backend_str w,
                  u_dynamic_backend := dynamic_backend w, weak_type := False\<rparr>"
  using assms
  by (auto simp: scatter_into_def Array_data_setter_def Array_init_def
      split: sum.splits if_splits)























section \<open>What changes the \<open>backend\<close> attribute\<close>




section \<open>The derived fields and their caches\<close>




section \<open>The \<^verbatim>\<open>size\<close> property\<close>

lemma foldl_mul: "foldl (*) (d::nat) ds = d * prod_list ds"
  by (induction ds arbitrary: d) (simp_all add: mult.assoc)

lemma reduce_mul_prod: "ds \<noteq> [] \<Longrightarrow> reduce_mul ds = prod_list ds"
  by (cases ds) (simp_all add: foldl_mul)

lemma init_size_cache_ok: "Array_init P w self data dyn = Inr a \<Longrightarrow> size_cache_ok a"
  by (auto simp: Array_init_def size_cache_ok_def split: sum.splits)

lemma size_keeps_cache_ok: "size_cache_ok a \<Longrightarrow> size_cache_ok (fst (snd (Array_size a)))"
  by (auto simp: Array_size_def size_cache_ok_def Let_def reduce_mul_prod split: option.splits)

text \<open>
  C9: \<^verbatim>\<open>size\<close> of an array whose shape is the empty tuple is 0, and of an array
  of positive rank the product of its dimensions. (The cache is coherent after
  construction and after every access to \<^verbatim>\<open>size\<close>, see the two lemmas above.)
\<close>

theorem size_of_array:
  assumes "size_cache_ok a"
  shows "fst (Array_size a) =
           (if dims (u_data a) = [] then 0 else prod_list (dims (u_data a)))"
  using assms
  by (auto simp: Array_size_def size_cache_ok_def Let_def reduce_mul_prod split: option.splits)

theorem size_of_array_witness:
  "size_cache_ok (with_dims []) \<and> fst (Array_size (with_dims [])) = 0 \<and>
   size_cache_ok (with_dims [2, 3]) \<and> fst (Array_size (with_dims [2, 3])) = 6"
proof -
  have h0: "size_cache_ok (with_dims [])"
    by (simp add: size_cache_ok_def with_dims_def numpy_array_def unbound_def)
  have h1: "size_cache_ok (with_dims [2, 3])"
    by (simp add: size_cache_ok_def with_dims_def numpy_array_def unbound_def)
  show ?thesis
    using h0 h1 size_of_array[OF h0] size_of_array[OF h1]
    by (simp add: with_dims_def)
qed

section \<open>Restoring a pickled array\<close>

text \<open>
  C7, evaluated at the failing input. The state comes from \<^verbatim>\<open>__getstate__\<close> of an
  array constructed while no backend was set, so its backend name is empty. Restoring
  it while \<open>torch\<close> is set succeeds, pushes nothing and still pops: the stack that
  held \<open>torch\<close> is empty afterwards.
\<close>

theorem setstate_pops_without_push:
  "fst (Array_getstate ref_prims (torch_array\<lparr>backend := []\<rparr>)) = implicit_state \<and>
   Array_setstate ref_prims (world_of [''torch'']) unbound implicit_state =
     (Inr torch_array, world_of [])"
  by (simp add: Array_getstate_def Array_device_def Array_setstate_def activate_def
      ivy_array_def Array_def Array_init_def previous_backend_def implicit_state_def
      torch_array_def unbound_def tensor_def world_of_def ref_prims_def
      current_backend_def current_backend_str_def Let_def)

text \<open>
  With a recorded backend name, a restore that succeeds leaves the stack as it was;
  with none, it pops what it never pushed; and a restore that raises after the push
  leaves the pushed backend on the stack.
\<close>

lemma setstate_recorded_backend_restores:
  assumes "st_backend state = Some b" "b \<noteq> []"
    and "Array_setstate P w self state = (Inr a, w')"
  shows "w' = w \<and> backend a = b"
  using assms
  by (auto simp: Array_setstate_def activate_def set_backend_def previous_backend_def
      ivy_array_def Array_def Array_init_def current_backend_str_def Let_def
      split: sum.splits)

lemma setstate_no_backend_pops:
  assumes "st_backend state = None \<or> st_backend state = Some []"
    and "Array_setstate P w self state = (Inr a, w')"
  shows "backend_stack w' = butlast (backend_stack w)"
  using assms
  by (auto simp: Array_setstate_def activate_def previous_backend_def Let_def
      split: sum.splits)

lemma setstate_raise_keeps_push:
  assumes "st_backend state = Some b" "b \<noteq> []"
    and "Array_setstate P w self state = (Inl e, w')"
  shows "backend_stack w' = backend_stack w @ [b]"
  using assms
  by (auto simp: Array_setstate_def activate_def set_backend_def Let_def
      split: sum.splits)

section \<open>Assigning to \<^verbatim>\<open>dynamic_backend\<close>\<close>

text \<open>
  C4, evaluated at the failing input. An array constructed with
  \<^verbatim>\<open>dynamic_backend=False\<close> has no attribute \<^verbatim>\<open>_backend\<close>; assigning
  \<^verbatim>\<open>True\<close> to its \<^verbatim>\<open>dynamic_backend\<close> raises before anything is assigned.
\<close>

theorem dynamic_backend_on_unpinned:
  "Array ref_prims (world_of [''numpy'']) (Native (tensor ''numpy'' [1, 2, 3])) (Some False) =
     Inr (numpy_array\<lparr>u_dynamic_backend := False\<rparr>) \<and>
   Array_dynamic_backend_setter ref_prims (world_of [''numpy'', ''torch''])
     (numpy_array\<lparr>u_dynamic_backend := False\<rparr>) True = Inl AttributeError"
  by (simp add: Array_def Array_init_def Array_dynamic_backend_setter_def numpy_array_def
      unbound_def tensor_def world_of_def current_backend_def current_backend_str_def)

text \<open>
  The same for every array that construction yields; and what the setter does where
  it does not raise.
\<close>

lemma init_leaves_u_backend:
  "Array_init P w self data dyn = Inr a \<Longrightarrow> u_backend a = u_backend self"
  by (auto simp: Array_init_def split: sum.splits)

lemma constructed_is_unpinned: "Array P w data dyn = Inr a \<Longrightarrow> u_backend a = None"
  by (auto simp: Array_def unbound_def dest: init_leaves_u_backend)

lemma dynamic_backend_on_raises:
  "u_backend self = None \<Longrightarrow> Array_dynamic_backend_setter P w self True = Inl AttributeError"
  by (simp add: Array_dynamic_backend_setter_def)

lemma dynamic_backend_off:
  "Array_dynamic_backend_setter P w self False =
     Inr (self\<lparr>u_backend := Some (lib (u_data self)), u_dynamic_backend := False\<rparr>)"
  by (simp add: Array_dynamic_backend_setter_def determine_backend_from_args_def)

lemma dynamic_backend_on_pinned:
  assumes "u_backend self = Some bk"
    and "Array_dynamic_backend_setter P w self True = Inr a"
  shows "rematerialize P w bk (u_data self) = Inr (u_data a) \<and> u_dynamic_backend a = True \<and>
         a = self\<lparr>u_data := u_data a, u_dynamic_backend := True\<rparr>"
  using assms
  by (auto simp: Array_dynamic_backend_setter_def split: sum.splits)

section \<open>The detach under \<open>torch\<close>\<close>


lemma setitem_numpy_example:
  "Array_setitem ref_prims (world_of [''numpy'']) numpy_array (Index 1) (Scalar 7) =
     (None, numpy_array\<lparr>u_data := tensor ''numpy'' [1, 7, 3]\<rparr>,
      [GetItem (Index 1), OnesLikeMul,
       NativeSetitem (tensor ''numpy'' [1, 2, 3]) (Index 1) seven])"
  by (simp add: Array_setitem_def pre_detach_def setitem_body_def unwrap_val_def
      broadcast_val_def try_assign_def ref_prims_def ref_get_item_def ref_ones_like_mul_def
      assign_def numpy_array_def unbound_def tensor_def world_of_def seven_def
      current_backend_str_def)




section \<open>The contract of an indexed assignment\<close>





section \<open>The multi-map keeps the key structure\<close>

lemma key_structure_simps:
  "key_structure (Leaf x) = Leaf ()"
  "key_structure (Cont kvs) = Cont (map (\<lambda>kv. (fst kv, key_structure (snd kv))) kvs)"
  by (auto simp: key_structure_def map_prod_def split: prod.splits)

lemma first_keys:
  assumes "distinct ks" "set ys \<subseteq> set ks"
  shows "rev (remdups (rev (ks @ ys))) = ks"
proof -
  have "remdups (rev ys @ rev ks) = remdups (rev ks)"
    using assms(2) by (intro remdups_append) simp
  then show ?thesis using assms(1) by (simp add: distinct_remdups_id)
qed

lemma all_keys_same:
  assumes "cs \<noteq> []" "\<forall>c\<in>set cs. keys_of c = ks" "distinct ks"
  shows "all_keys cs = ks"
proof -
  obtain c cs' where cs: "cs = c # cs'" using assms(1) by (cases cs) auto
  have "set (concat (map keys_of cs')) \<subseteq> set ks" using assms(2) cs by auto
  then show ?thesis
    using first_keys[OF assms(3)] assms(2) cs by (simp add: all_keys_def)
qed

lemma structure_Cont:
  assumes "key_structure c = Cont skv"
  obtains kvs where "c = Cont kvs" "skv = map (\<lambda>kv. (fst kv, key_structure (snd kv))) kvs"
  using assms by (cases c) (auto simp: key_structure_simps)

lemma map_of_structure:
  "map_of (map (\<lambda>kv. (fst kv, key_structure (snd kv))) kvs) k =
     map_option key_structure (map_of kvs k)"
  by (induction kvs) auto

lemma wf_map_of: "wf_cont (Cont kvs) \<Longrightarrow> map_of kvs k = Some v \<Longrightarrow> wf_cont v"
  by (auto simp: list_all_iff dest!: map_of_SomeD)

lemma sub_structure:
  assumes "wf_cont c" "key_structure c = Cont skv" "k \<in> set (map fst skv)"
  shows "wf_cont (sub k c) \<and> map_of skv k = Some (key_structure (sub k c))"
proof -
  obtain kvs where c: "c = Cont kvs"
    and skv: "skv = map (\<lambda>kv. (fst kv, key_structure (snd kv))) kvs"
    using assms(2) by (rule structure_Cont)
  have "k \<in> set (map fst kvs)" using assms(3) skv by (auto simp: comp_def)
  then obtain v where v: "map_of kvs k = Some v"
    by (metis map_of_eq_None_iff not_Some_eq set_map)
  show ?thesis
    using v assms(1) c skv wf_map_of[of kvs k v] by (simp add: map_of_structure)
qed

lemma rebuild_assoc:
  "distinct (map fst skv) \<Longrightarrow>
   (\<And>k. k \<in> set (map fst skv) \<Longrightarrow> map_of skv k = Some (g k)) \<Longrightarrow>
   map (\<lambda>k. (k, g k)) (map fst skv) = skv"
proof (induction skv)
  case Nil
  then show ?case by simp
next
  case (Cons a skv)
  have "g (fst a) = snd a" using Cons.prems(2)[of "fst a"] by simp
  moreover have "map (\<lambda>k. (k, g k)) (map fst skv) = skv"
  proof (rule Cons.IH)
    show "distinct (map fst skv)" using Cons.prems(1) by simp
    fix k assume k: "k \<in> set (map fst skv)"
    then have "k \<noteq> fst a" using Cons.prems(1) by (force simp: image_iff)
    then show "map_of skv k = Some (g k)" using Cons.prems(2)[of k] k by auto
  qed
  ultimately show ?case by simp
qed

lemma cont_zip_structure:
  assumes "cs \<noteq> []" "\<forall>c\<in>set cs. wf_cont c \<and> key_structure c = S"
  shows "key_structure (cont_zip cs) = S"
  using assms
proof (induction cs arbitrary: S rule: cont_zip.induct)
  case (1 cs)
  show ?case
  proof (cases "list_ex is_container cs")
    case False
    obtain c where c: "c \<in> set cs" using "1.prems"(1) by (cases cs) auto
    then have "\<not> is_container c" using False by (auto simp: list_ex_iff)
    then have "S = Leaf ()" using "1.prems"(2) c by (cases c) (auto simp: key_structure_simps)
    then show ?thesis using False by (subst cont_zip.simps) (simp add: key_structure_simps)
  next
    case True
    then obtain c0 where c0: "c0 \<in> set cs" "is_container c0" by (auto simp: list_ex_iff)
    obtain kvs0 where kvs0: "c0 = Cont kvs0" using c0(2) by (cases c0) auto
    have "key_structure c0 = S" using "1.prems"(2) c0(1) by blast
    then obtain skv where S: "S = Cont skv"
      using kvs0 by (auto simp: key_structure_simps)
    have keys: "keys_of c = map fst skv" if "c \<in> set cs" for c
    proof -
      have "key_structure c = Cont skv" using "1.prems"(2) that S by simp
      then show ?thesis by (rule structure_Cont) (simp add: comp_def)
    qed
    have dist: "distinct (map fst skv)"
    proof -
      have "wf_cont c0" using "1.prems"(2) c0(1) by blast
      then show ?thesis using keys[OF c0(1)] kvs0 by simp
    qed
    have ak: "all_keys cs = map fst skv"
      using all_keys_same[OF "1.prems"(1) _ dist] keys by blast
    have sub: "key_structure (cont_zip (map (sub k) cs)) = key_structure (sub k c0) \<and>
               map_of skv k = Some (key_structure (sub k c0))"
      if k: "k \<in> set (map fst skv)" for k
    proof -
      have each: "wf_cont (sub k c) \<and> map_of skv k = Some (key_structure (sub k c))"
        if "c \<in> set cs" for c
        using sub_structure[of c skv k] "1.prems"(2) that S k by simp
      have "\<forall>c'\<in>set (map (sub k) cs). wf_cont c' \<and> key_structure c' = key_structure (sub k c0)"
        using each each[OF c0(1)] by auto
      moreover have "map (sub k) cs \<noteq> []" using "1.prems"(1) by simp
      ultimately have "key_structure (cont_zip (map (sub k) cs)) = key_structure (sub k c0)"
        using "1.IH"[OF True, of k] k ak by simp
      then show ?thesis using each[OF c0(1)] by simp
    qed
    have "map (\<lambda>k. (k, key_structure (cont_zip (map (sub k) cs)))) (map fst skv) = skv"
      by (rule rebuild_assoc[OF dist]) (use sub in auto)
    then show ?thesis
      using True ak S
      by (subst cont_zip.simps) (simp add: key_structure_simps comp_def)
  qed
qed

lemma leaf_structure: "\<not> is_container r \<Longrightarrow> key_structure r = Leaf ()"
  by (cases r) (auto simp: key_structure_simps)

lemma apply_keeps_structure:
  shows "key_chains fl = None \<or> \<not> prune_unapplied fl \<Longrightarrow> returns_leaves f \<Longrightarrow>
         apply_tree fl f p t = (Inr ro, tr) \<Longrightarrow>
           (\<exists>r. ro = Some r \<and> key_structure r = key_structure t)"
    and "key_chains fl = None \<or> \<not> prune_unapplied fl \<Longrightarrow> returns_leaves f \<Longrightarrow>
         apply_entries fl f p kvs = (Inr rs, tr) \<Longrightarrow>
           map (\<lambda>kv. (fst kv, key_structure (snd kv))) rs =
           map (\<lambda>kv. (fst kv, key_structure (snd kv))) kvs"
proof (induction fl f p t and fl f p kvs arbitrary: ro tr and rs tr
    rule: apply_tree_apply_entries.induct)
  case (1 fl f p vs)
  show ?case
  proof (cases "unapplied fl p")
    case True
    then have "\<not> prune_unapplied fl"
      using "1.prems"(1) by (auto simp: unapplied_def split: option.splits)
    then show ?thesis using "1.prems" True by (auto simp: key_structure_simps)
  next
    case False
    obtain r1 tr1 where a: "f (map Leaf vs) = (r1, tr1)" by (cases "f (map Leaf vs)")
    then obtain r where r: "r1 = Inr r" "ro = Some r"
      using "1.prems"(3) False by (cases r1) auto
    have "\<not> is_container r" using "1.prems"(2) a r unfolding returns_leaves_def by blast
    then show ?thesis using r by (simp add: key_structure_simps leaf_structure)
  qed
next
  case (2 fl f p kvs)
  obtain r2 tr2 where b: "apply_entries fl f p kvs = (r2, tr2)"
    by (cases "apply_entries fl f p kvs")
  then obtain rs where rs: "r2 = Inr rs" "ro = Some (Cont rs)"
    using "2.prems"(3) by (cases r2) auto
  show ?case
    using "2.IH"[OF "2.prems"(1,2) b[unfolded rs(1)]] rs by (simp add: key_structure_simps)
next
  case (3 fl f p)
  then show ?case by simp
next
  case (4 fl f p kv kvs)
  obtain r1 tr1 where a: "apply_tree fl f (p @ [fst kv]) (snd kv) = (r1, tr1)"
    by (cases "apply_tree fl f (p @ [fst kv]) (snd kv)")
  then obtain ro where ro: "r1 = Inr ro" using "4.prems"(3) by (cases r1) auto
  obtain r2 tr2 where b: "apply_entries fl f p kvs = (r2, tr2)"
    by (cases "apply_entries fl f p kvs")
  then obtain rs' where rs': "r2 = Inr rs'" using "4.prems"(3) a ro by (cases r2) auto
  obtain t' where t': "ro = Some t'" "key_structure t' = key_structure (snd kv)"
    using "4.IH"(1)[OF "4.prems"(1,2) a[unfolded ro]] by blast
  have tl: "map (\<lambda>kv. (fst kv, key_structure (snd kv))) rs' =
      map (\<lambda>kv. (fst kv, key_structure (snd kv))) kvs"
    using "4.IH"(2)[OF a[symmetric] ro "4.prems"(1,2) b[unfolded rs']] .
  have "rs = (fst kv, t') # rs'" using "4.prems"(3) a b ro rs' t' by simp
  then show ?case using t' tl by simp
qed

lemma apply_total:
  shows "(\<forall>args. \<exists>r tr. f args = (Inr r, tr)) \<Longrightarrow> \<exists>ro tr. apply_tree fl f p t = (Inr ro, tr)"
    and "(\<forall>args. \<exists>r tr. f args = (Inr r, tr)) \<Longrightarrow> \<exists>rs tr. apply_entries fl f p kvs = (Inr rs, tr)"
proof (induction fl f p t and fl f p kvs rule: apply_tree_apply_entries.induct)
  case (1 fl f p vs)
  obtain r tr where "f (map Leaf vs) = (Inr r, tr)" using "1.prems" by blast
  then show ?case by simp
next
  case (2 fl f p kvs)
  obtain rs tr where "apply_entries fl f p kvs = (Inr rs, tr)" using "2.IH"[OF "2.prems"] by blast
  then show ?case by simp
next
  case (3 fl f p)
  then show ?case by simp
next
  case (4 fl f p kv kvs)
  obtain ro tr where a: "apply_tree fl f (p @ [fst kv]) (snd kv) = (Inr ro, tr)"
    using "4.IH"(1)[OF "4.prems"] by blast
  obtain rs tr' where b: "apply_entries fl f p kvs = (Inr rs, tr')"
    using "4.IH"(2)[OF a[symmetric] refl "4.prems"] by blast
  show ?case using a b by simp
qed

lemma leaf_op_returns_leaves: "returns_leaves (leaf_op op)"
  by (auto simp: returns_leaves_def leaf_op_def split: sum.splits)

lemma zip_example:
  "cont_zip [cont_a, cont_b] =
     Cont [(''a'', Leaf [Scalar 1, Scalar 10]), (''b'', Cont [(''c'', Leaf [Scalar 2, Scalar 20])])]"
  by (simp add: cont_zip.simps cont_a_def cont_b_def all_keys_def)

lemma multi_map_example:
  "multi_map default_flags (leaf_op add_op) [cont_a, cont_b] = (Inr cont_sum, [])"
  by (simp add: multi_map_def zip_example default_flags_def unapplied_def leaf_op_def
      add_op_def cont_sum_def)

text \<open>
  C8: for containers \<open>c1\<close> and \<open>c2\<close> with the same key structure (and unique
  keys at every level), whenever the multi-map of an operation over them returns a
  container, that container has the key structure of \<open>c1\<close>, and it does return one
  when the operation raises at no leaf. This holds for all flags that prune nothing,
  the default ones among them. The inputs are values: the result is built anew and
  nothing is assigned to \<open>c1\<close> or \<open>c2\<close>.
\<close>

theorem multi_map_key_structure:
  assumes "wf_cont c1" "wf_cont c2" "key_structure c2 = key_structure c1"
    and "key_chains fl = None \<or> \<not> prune_unapplied fl"
  shows "(\<forall>r tr. multi_map fl (leaf_op op) [c1, c2] = (Inr r, tr) \<longrightarrow>
            key_structure r = key_structure c1) \<and>
         ((\<forall>vs. \<exists>y. op vs = Inr y) \<longrightarrow>
            (\<exists>r tr. multi_map fl (leaf_op op) [c1, c2] = (Inr r, tr)))"
proof -
  have z: "key_structure (cont_zip [c1, c2]) = key_structure c1"
    using cont_zip_structure[of "[c1, c2]" "key_structure c1"] assms(1-3) by simp
  have a: "key_structure r = key_structure c1"
    if "multi_map fl (leaf_op op) [c1, c2] = (Inr r, tr)" for r tr
  proof -
    obtain x tr' where x: "apply_tree fl (leaf_op op) [] (cont_zip [c1, c2]) = (x, tr')"
      by (cases "apply_tree fl (leaf_op op) [] (cont_zip [c1, c2])")
    have "x \<noteq> Inl e" for e using that x by (auto simp: multi_map_def)
    then obtain ro where ro: "x = Inr ro" by (cases x) auto
    obtain r' where r': "ro = Some r'" "key_structure r' = key_structure (cont_zip [c1, c2])"
      using apply_keeps_structure(1)[OF assms(4) leaf_op_returns_leaves x[unfolded ro]] by blast
    have "r = r'" using that x ro r' by (simp add: multi_map_def)
    then show ?thesis using r' z by simp
  qed
  have b: "\<exists>r tr. multi_map fl (leaf_op op) [c1, c2] = (Inr r, tr)"
    if total: "\<forall>vs. \<exists>y. op vs = Inr y"
  proof -
    have "\<exists>r tr. leaf_op op args = (Inr r, tr)" for args
    proof -
      obtain y where "op (map leaf_value args) = Inr y" using total by blast
      then show ?thesis by (simp add: leaf_op_def)
    qed
    then have tot: "\<forall>args. \<exists>r tr. leaf_op op args = (Inr r, tr)" by blast
    obtain ro tr where "apply_tree fl (leaf_op op) [] (cont_zip [c1, c2]) = (Inr ro, tr)"
      using apply_total(1)[OF tot] by blast
    then show ?thesis by (cases ro) (auto simp: multi_map_def)
  qed
  show ?thesis using a b by blast
qed

theorem multi_map_key_structure_witness:
  "wf_cont cont_a \<and> wf_cont cont_b \<and> key_structure cont_b = key_structure cont_a \<and>
   key_chains default_flags = None \<and>
   multi_map default_flags (leaf_op add_op) [cont_a, cont_b] = (Inr cont_sum, []) \<and>
   key_structure cont_sum = key_structure cont_a"
proof -
  have h1: "wf_cont cont_a" by (simp add: cont_a_def)
  have h2: "wf_cont cont_b" by (simp add: cont_b_def)
  have h3: "key_structure cont_b = key_structure cont_a"
    by (simp add: cont_a_def cont_b_def key_structure_def)
  have h4: "key_chains default_flags = None" by (simp add: default_flags_def)
  have h5: "key_chains default_flags = None \<or> \<not> prune_unapplied default_flags"
    using h4 by simp
  show ?thesis
    using h1 h2 h3 h4 multi_map_example
      multi_map_key_structure[OF h1 h2 h3 h5, of add_op]
    by blast
qed

section \<open>The order of the wrappers\<close>

lemma container_free_append:
  "container_free (xs @ ys) = (container_free xs \<and> container_free ys)"
  by (simp add: container_free_def)

lemma to_native_leaf: "is_container (to_native c) = is_container c"
  by (cases c) (simp_all add: to_native_def)

lemma to_native_args: "list_ex is_container (map to_native args) = list_ex is_container args"
  by (induction args) (simp_all add: to_native_leaf)

lemma leaves_no_container: "\<not> list_ex is_container (map Leaf vs)"
  by (induction vs) simp_all

lemma chain_on_leaves:
  "\<not> list_ex is_container args \<Longrightarrow>
   container_free (snd (foldr (wrap P w fl) ds (invoke bp) args))"
proof (induction ds arbitrary: args)
  case Nil
  then show ?case by (simp add: invoke_def container_free_def)
next
  case (Cons d ds)
  show ?case
  proof (cases d)
    case handle_nestable
    then show ?thesis using Cons by simp
  next
    case to_native_arrays_and_back
    have "container_free (snd (foldr (wrap P w fl) ds (invoke bp) (map to_native args)))"
      using Cons.IH[of "map to_native args"] Cons.prems by (simp add: to_native_args)
    then show ?thesis
      using to_native_arrays_and_back
      by (auto split: prod.splits sum.splits)
  qed (use Cons in simp_all)
qed

lemma apply_calls:
  shows "(\<forall>vs. container_free (snd (f (map Leaf vs)))) \<Longrightarrow>
         container_free (snd (apply_tree fl f p t))"
    and "(\<forall>vs. container_free (snd (f (map Leaf vs)))) \<Longrightarrow>
         container_free (snd (apply_entries fl f p kvs))"
proof (induction fl f p t and fl f p kvs rule: apply_tree_apply_entries.induct)
  case (1 fl f p vs)
  have "container_free (snd (f (map Leaf vs)))" using "1.prems" by blast
  then show ?case
    by (auto simp: container_free_def split: prod.splits sum.splits)
next
  case (2 fl f p kvs)
  then show ?case by (auto split: prod.splits sum.splits)
next
  case (3 fl f p)
  then show ?case by (simp add: container_free_def)
next
  case (4 fl f p kv kvs)
  obtain r1 tr1 where a: "apply_tree fl f (p @ [fst kv]) (snd kv) = (r1, tr1)"
    by (cases "apply_tree fl f (p @ [fst kv]) (snd kv)")
  have c1: "container_free tr1" using "4.IH"(1)[OF "4.prems"] a by simp
  show ?case
  proof (cases r1)
    case (Inl e)
    then show ?thesis using a c1 by simp
  next
    case (Inr ro)
    obtain r2 tr2 where b: "apply_entries fl f p kvs = (r2, tr2)"
      by (cases "apply_entries fl f p kvs")
    have c2: "container_free tr2" using "4.IH"(2)[OF a[symmetric] Inr "4.prems"] b by simp
    show ?thesis
      using a b Inr c1 c2 by (cases r2) (simp_all add: container_free_append)
  qed
qed

lemma multi_map_calls:
  assumes "\<forall>vs. container_free (snd (f (map Leaf vs)))"
  shows "container_free (snd (multi_map fl f cs))"
proof -
  obtain x tr where x: "apply_tree fl f [] (cont_zip cs) = (x, tr)"
    by (cases "apply_tree fl f [] (cont_zip cs)")
  have "container_free tr" using apply_calls(1)[OF assms, of fl "[]" "cont_zip cs"] x by simp
  then show ?thesis
    using x by (auto simp: multi_map_def split: sum.splits option.splits)
qed

lemma nestable_chain:
  "handle_nestable \<in> set ds \<Longrightarrow>
   container_free (snd (foldr (wrap P w fl) ds (invoke bp) args))"
proof (induction ds arbitrary: args)
  case Nil
  then show ?case by simp
next
  case (Cons d ds)
  show ?case
  proof (cases d)
    case handle_nestable
    show ?thesis
    proof (cases "list_ex is_container args")
      case True
      have "\<forall>vs. container_free (snd (foldr (wrap P w fl) ds (invoke bp) (map Leaf vs)))"
        using chain_on_leaves leaves_no_container by blast
      then show ?thesis
        using handle_nestable True multi_map_calls by simp
    next
      case False
      then show ?thesis using handle_nestable chain_on_leaves[OF False] by simp
    qed
  next
    case to_native_arrays_and_back
    then have "handle_nestable \<in> set ds" using Cons.prems by auto
    then have "container_free (snd (foldr (wrap P w fl) ds (invoke bp) (map to_native args)))"
      using Cons.IH by blast
    then show ?thesis
      using to_native_arrays_and_back
      by (auto split: prod.splits sum.splits)
  qed (use Cons in auto)
qed

lemma nestable_in_every_chain: "handle_nestable \<in> set (decorators p)"
  by (cases p) simp_all

lemma recursion_first:
  "list_ex is_container args \<Longrightarrow>
   pipeline P w fl (decorators p) bp args =
     multi_map fl (pipeline P w fl (inside handle_nestable (decorators p)) bp) args"
  by (cases p) (simp_all add: pipeline_def inside_def)

lemma pipeline_example:
  "pipeline ref_prims (world_of [''numpy'']) default_flags (decorators argmax) first_arg
     [cont_arrays] =
     (Inr cont_arrays, [[Leaf (Native (tensor ''numpy'' [1, 2, 3]))]])"
  by (simp add: pipeline_def multi_map_def cont_zip.simps all_keys_def cont_arrays_def
      default_flags_def unapplied_def invoke_def first_arg_def to_native_def to_ivy_def
      Array_def Array_init_def numpy_array_def unbound_def tensor_def world_of_def
      current_backend_def current_backend_str_def)

text \<open>
  C3: in the decorator chain of every primitive of \<^verbatim>\<open>searching.py\<close> and of
  \<^verbatim>\<open>experimental/linear_algebra.py\<close>, nestable recursion encloses native
  unwrapping wherever the latter occurs; for all arguments, no call of the backend
  primitive has a container among its arguments; and when an argument is a container,
  the call is the multi-map, over the leaves, of the part of the chain that nestable
  recursion encloses.
\<close>

theorem nestable_before_native:
  "encloses handle_nestable to_native_arrays_and_back (decorators p) \<and>
   container_free (snd (pipeline P w fl (decorators p) bp args)) \<and>
   (list_ex is_container args \<longrightarrow>
      pipeline P w fl (decorators p) bp args =
        multi_map fl (pipeline P w fl (inside handle_nestable (decorators p)) bp) args)"
proof -
  have "encloses handle_nestable to_native_arrays_and_back (decorators p)"
    by (cases p) (simp_all add: encloses_def)
  moreover have "container_free (snd (pipeline P w fl (decorators p) bp args))"
    unfolding pipeline_def using nestable_in_every_chain by (rule nestable_chain)
  ultimately show ?thesis using recursion_first by blast
qed

theorem nestable_before_native_witness:
  "list_ex is_container [cont_arrays] \<and>
   encloses handle_nestable to_native_arrays_and_back (decorators argmax) \<and>
   pipeline ref_prims (world_of [''numpy'']) default_flags (decorators argmax) first_arg
     [cont_arrays] =
     (Inr cont_arrays, [[Leaf (Native (tensor ''numpy'' [1, 2, 3]))]]) \<and>
   container_free [[Leaf (Native (tensor ''numpy'' [1, 2, 3]))]] \<and>
   multi_map default_flags
     (pipeline ref_prims (world_of [''numpy'']) default_flags
        (inside handle_nestable (decorators argmax)) first_arg) [cont_arrays] =
     (Inr cont_arrays, [[Leaf (Native (tensor ''numpy'' [1, 2, 3]))]])"
proof -
  have h: "list_ex is_container [cont_arrays]" by (simp add: cont_arrays_def)
  show ?thesis
    using h pipeline_example
      nestable_before_native[of argmax ref_prims "world_of [''numpy'']" default_flags
        first_arg "[cont_arrays]"]
    by simp
qed

end
